theory Spec2Isabelle
  imports Main "HOL-Library.Char_ord"
begin

section \<open>Strings and paths\<close>

text \<open>
  JavaScript strings are modelled as \<^typ>\<open>string\<close>, holding the UTF-8 bytes of the text.
  A value that the source only ever reads through \<open>!x\<close> or \<open>x || y\<close> is a plain string
  whose empty value stands for every falsy value (\<open>undefined\<close>, \<open>null\<close>, \<open>""\<close>).
  The logger writes to its own sink and is left out: no handler reads it back.
\<close>

definition truthy :: "string \<Rightarrow> bool" where
  "truthy x = (x \<noteq> [])"

definition orElse :: "string \<Rightarrow> string \<Rightarrow> string" where
  "orElse x y = (if truthy x then x else y)"

text \<open>The character class \<open>[a-zA-Z0-9_-]\<close>.\<close>

definition isIdChar :: "char \<Rightarrow> bool" where
  "isIdChar c =
     ((CHR ''a'' \<le> c \<and> c \<le> CHR ''z'') \<or> (CHR ''A'' \<le> c \<and> c \<le> CHR ''Z'') \<or>
      (CHR ''0'' \<le> c \<and> c \<le> CHR ''9'') \<or> c = CHR ''_'' \<or> c = CHR ''-'')"

text \<open>\<open>phoneNumber.replace(/[^a-zA-Z0-9_-]/g, '')\<close>, bound to \<open>cleanedClientId\<close> in the source.\<close>

definition cleanedClientId :: "string \<Rightarrow> string" where
  "cleanedClientId phoneNumber = filter isIdChar phoneNumber"

definition endsWith :: "string \<Rightarrow> string \<Rightarrow> bool" where
  "endsWith s t = (length t \<le> length s \<and> drop (length s - length t) s = t)"

text \<open>\<open>s.replace(pat, rep)\<close> with a string pattern: only the first occurrence is replaced.\<close>

fun replaceFirst :: "string \<Rightarrow> string \<Rightarrow> string \<Rightarrow> string" where
  "replaceFirst pat rep [] = (if pat = [] then rep else [])"
| "replaceFirst pat rep (c # cs) =
     (if take (length pat) (c # cs) = pat then rep @ drop (length pat) (c # cs)
      else c # replaceFirst pat rep cs)"

text \<open>\<open>s.split(sep)\<close> for a one-character separator.\<close>

fun split :: "char \<Rightarrow> string \<Rightarrow> string list" where
  "split sep [] = [[]]"
| "split sep (c # cs) =
     (if c = sep then [] # split sep cs
      else (case split sep cs of [] \<Rightarrow> [[c]] | x # xs \<Rightarrow> (c # x) # xs))"

text \<open>\<open>xs[i] || y\<close>: a missing element and an empty one both fall through to \<open>y\<close>.\<close>

definition nthOrElse :: "string list \<Rightarrow> nat \<Rightarrow> string \<Rightarrow> string" where
  "nthOrElse xs i y = (if i < length xs then orElse (xs ! i) y else y)"

text \<open>
  Paths are written relative to the directory of the script (\<open>BASE_DIR = __dirname\<close>).
  \<open>path.join\<close> is used by the source only on segments that need no normalisation.
\<close>

definition path_join :: "string \<Rightarrow> string \<Rightarrow> string" where
  "path_join a b = a @ ''/'' @ b"

definition basename :: "string \<Rightarrow> string" where
  "basename p = last (split (CHR ''/'') p)"

definition AUTH_DIR :: string where
  "AUTH_DIR = ''.wwebjs_auth''"

definition CACHE_DIR :: string where
  "CACHE_DIR = ''.wwebjs_cache''"

definition getSessionPath :: "string \<Rightarrow> string" where
  "getSessionPath phoneNumber = path_join AUTH_DIR (''session-'' @ cleanedClientId phoneNumber)"

definition getCachePath :: "string \<Rightarrow> string" where
  "getCachePath phoneNumber = path_join CACHE_DIR (''cache-'' @ cleanedClientId phoneNumber)"

section \<open>JSON values\<close>

datatype json =
    JNull
  | JBool bool
  | JNum int
  | JStr string
  | JArr "json list"
  | JObj "(string \<times> json) list"

text \<open>
  An object literal defines its properties from left to right; a key that is defined twice
  keeps its first position and takes the later value. This matters for the computed key
  \<open>[type]\<close> of the webhook payload.
\<close>

fun defineProperty :: "string \<Rightarrow> json \<Rightarrow> (string \<times> json) list \<Rightarrow> (string \<times> json) list" where
  "defineProperty k v [] = [(k, v)]"
| "defineProperty k v (p # ps) =
     (if fst p = k then (k, v) # ps else p # defineProperty k v ps)"

definition object :: "(string \<times> json) list \<Rightarrow> json" where
  "object props = JObj (foldl (\<lambda>ps kv. defineProperty (fst kv) (snd kv) ps) [] props)"

text \<open>A property that is \<open>undefined\<close> is dropped when the object is serialised.\<close>

definition optional :: "string \<Rightarrow> string option \<Rightarrow> (string \<times> json) list" where
  "optional k v = (case v of None \<Rightarrow> [] | Some x \<Rightarrow> [(k, JStr x)])"

datatype selector = Key string | Idx nat

fun select :: "json \<Rightarrow> selector \<Rightarrow> json option" where
  "select (JObj ps) (Key k) = map_of ps k"
| "select (JArr xs) (Idx i) = (if i < length xs then Some (xs ! i) else None)"
| "select _ _ = None"

fun at_path :: "json \<Rightarrow> selector list \<Rightarrow> json option" where
  "at_path j [] = Some j"
| "at_path j (x # xs) = (case select j x of None \<Rightarrow> None | Some j' \<Rightarrow> at_path j' xs)"

section \<open>Fixed message texts\<close>

text \<open>The user-visible texts of the source, as their UTF-8 bytes.\<close>

definition msgPhoneRequired :: string where
  "msgPhoneRequired = ''Phone number is required''"

definition msgSessionExists :: string where
  "msgSessionExists =
   [CHR 0xD0, CHR 0xA1, CHR 0xD0, CHR 0xB5, CHR 0xD1, CHR 0x81, CHR 0xD1, CHR 0x96, CHR 0xD1,
    CHR 0x8F, CHR '' '', CHR 0xD0, CHR 0xB2, CHR 0xD0, CHR 0xB6, CHR 0xD0, CHR 0xB5, CHR '' '',
    CHR 0xD1, CHR 0x96, CHR 0xD1, CHR 0x81, CHR 0xD0, CHR 0xBD, CHR 0xD1, CHR 0x83, CHR 0xD1,
    CHR 0x94, CHR '' '', CHR 0xD0, CHR 0xB0, CHR 0xD0, CHR 0xB1, CHR 0xD0, CHR 0xBE, CHR '' '',
    CHR 0xD0, CHR 0xB0, CHR 0xD0, CHR 0xBA, CHR 0xD1, CHR 0x82, CHR 0xD0, CHR 0xB8, CHR 0xD0,
    CHR 0xB2, CHR 0xD0, CHR 0xBD, CHR 0xD0, CHR 0xB0]"

definition msgInternalError :: string where
  "msgInternalError =
   [CHR 0xD0, CHR 0x92, CHR 0xD0, CHR 0xBD, CHR 0xD1, CHR 0x83, CHR 0xD1, CHR 0x82, CHR 0xD1,
    CHR 0x80, CHR 0xD1, CHR 0x96, CHR 0xD1, CHR 0x88, CHR 0xD0, CHR 0xBD, CHR 0xD1, CHR 0x8F,
    CHR '' '', CHR 0xD0, CHR 0xBF, CHR 0xD0, CHR 0xBE, CHR 0xD0, CHR 0xBC, CHR 0xD0, CHR 0xB8,
    CHR 0xD0, CHR 0xBB, CHR 0xD0, CHR 0xBA, CHR 0xD0, CHR 0xB0, CHR '' '', CHR 0xD1, CHR 0x81,
    CHR 0xD0, CHR 0xB5, CHR 0xD1, CHR 0x80, CHR 0xD0, CHR 0xB2, CHR 0xD0, CHR 0xB5, CHR 0xD1,
    CHR 0x80, CHR 0xD0, CHR 0xB0]"

definition msgRequiredParams :: string where
  "msgRequiredParams =
   [CHR 0xD0, CHR 0x9D, CHR 0xD0, CHR 0xB5, CHR 0xD0, CHR 0xBE, CHR 0xD0, CHR 0xB1, CHR 0xD1,
    CHR 0x85, CHR 0xD1, CHR 0x96, CHR 0xD0, CHR 0xB4, CHR 0xD0, CHR 0xBD, CHR 0xD1, CHR 0x96,
    CHR '' '', CHR 0xD0, CHR 0xBF, CHR 0xD0, CHR 0xB0, CHR 0xD1, CHR 0x80, CHR 0xD0, CHR 0xB0,
    CHR 0xD0, CHR 0xBC, CHR 0xD0, CHR 0xB5, CHR 0xD1, CHR 0x82, CHR 0xD1, CHR 0x80, CHR 0xD0,
    CHR 0xB8, CHR '':'', CHR '' '', CHR ''f'', CHR ''r'', CHR ''o'', CHR ''m'', CHR '','',
    CHR '' '', CHR ''t'', CHR ''o'', CHR '','', CHR '' '', CHR ''m'', CHR ''e'', CHR ''s'',
    CHR ''s'', CHR ''a'', CHR ''g'', CHR ''e'']"

definition msgClientNotConnected :: string where
  "msgClientNotConnected =
   [CHR 0xD0, CHR 0x9A, CHR 0xD0, CHR 0xBB, CHR 0xD1, CHR 0x96, CHR 0xD1, CHR 0x94, CHR 0xD0,
    CHR 0xBD, CHR 0xD1, CHR 0x82, CHR '' '', CHR 0xD0, CHR 0xBD, CHR 0xD0, CHR 0xB5, CHR '' '',
    CHR 0xD0, CHR 0xBF, CHR 0xD1, CHR 0x96, CHR 0xD0, CHR 0xB4, CHR 0xD0, CHR 0xBA, CHR 0xD0,
    CHR 0xBB, CHR 0xD1, CHR 0x8E, CHR 0xD1, CHR 0x87, CHR 0xD0, CHR 0xB5, CHR 0xD0, CHR 0xBD,
    CHR 0xD0, CHR 0xB8, CHR 0xD0, CHR 0xB9]"

definition msgFileNotFound :: string where
  "msgFileNotFound =
   [CHR 0xD0, CHR 0xA4, CHR 0xD0, CHR 0xB0, CHR 0xD0, CHR 0xB9, CHR 0xD0, CHR 0xBB, CHR '' '',
    CHR 0xD0, CHR 0xBD, CHR 0xD0, CHR 0xB5, CHR '' '', CHR 0xD0, CHR 0xB7, CHR 0xD0, CHR 0xBD,
    CHR 0xD0, CHR 0xB0, CHR 0xD0, CHR 0xB9, CHR 0xD0, CHR 0xB4, CHR 0xD0, CHR 0xB5, CHR 0xD0,
    CHR 0xBD, CHR 0xD0, CHR 0xBE, CHR '':'', CHR '' '']"

definition msgUnsupportedContentType :: string where
  "msgUnsupportedContentType =
   [CHR 0xD0, CHR 0x9D, CHR 0xD0, CHR 0xB5, CHR 0xD0, CHR 0xBF, CHR 0xD1, CHR 0x96, CHR 0xD0,
    CHR 0xB4, CHR 0xD1, CHR 0x82, CHR 0xD1, CHR 0x80, CHR 0xD0, CHR 0xB8, CHR 0xD0, CHR 0xBC,
    CHR 0xD1, CHR 0x83, CHR 0xD0, CHR 0xB2, CHR 0xD0, CHR 0xB0, CHR 0xD0, CHR 0xBD, CHR 0xD0,
    CHR 0xB8, CHR 0xD0, CHR 0xB9, CHR '' '', CHR ''c'', CHR ''o'', CHR ''n'', CHR ''t'',
    CHR ''e'', CHR ''n'', CHR ''t'', CHR ''T'', CHR ''y'', CHR ''p'', CHR ''e'', CHR '':'',
    CHR '' '']"

definition msgSessionDeleted :: string where
  "msgSessionDeleted =
   [CHR 0xD0, CHR 0xA1, CHR 0xD0, CHR 0xB5, CHR 0xD1, CHR 0x81, CHR 0xD1, CHR 0x96, CHR 0xD1,
    CHR 0x8F, CHR '' '', CHR 0xD1, CHR 0x83, CHR 0xD1, CHR 0x81, CHR 0xD0, CHR 0xBF, CHR 0xD1,
    CHR 0x96, CHR 0xD1, CHR 0x88, CHR 0xD0, CHR 0xBD, CHR 0xD0, CHR 0xBE, CHR '' '', CHR 0xD0,
    CHR 0xB2, CHR 0xD0, CHR 0xB8, CHR 0xD0, CHR 0xB4, CHR 0xD0, CHR 0xB0, CHR 0xD0, CHR 0xBB,
    CHR 0xD0, CHR 0xB5, CHR 0xD0, CHR 0xBD, CHR 0xD0, CHR 0xB0]"

definition msgAuthSuccess :: string where
  "msgAuthSuccess =
   [CHR 0xD0, CHR 0x90, CHR 0xD0, CHR 0xB2, CHR 0xD1, CHR 0x82, CHR 0xD0, CHR 0xB5, CHR 0xD0,
    CHR 0xBD, CHR 0xD1, CHR 0x82, CHR 0xD0, CHR 0xB8, CHR 0xD1, CHR 0x84, CHR 0xD1, CHR 0x96,
    CHR 0xD0, CHR 0xBA, CHR 0xD0, CHR 0xB0, CHR 0xD1, CHR 0x86, CHR 0xD1, CHR 0x96, CHR 0xD1,
    CHR 0x8F, CHR '' '', CHR 0xD1, CHR 0x83, CHR 0xD1, CHR 0x81, CHR 0xD0, CHR 0xBF, CHR 0xD1,
    CHR 0x96, CHR 0xD1, CHR 0x88, CHR 0xD0, CHR 0xBD, CHR 0xD0, CHR 0xB0]"

definition msgAuthFailure :: string where
  "msgAuthFailure =
   [CHR 0xD0, CHR 0x9F, CHR 0xD0, CHR 0xBE, CHR 0xD0, CHR 0xBC, CHR 0xD0, CHR 0xB8, CHR 0xD0,
    CHR 0xBB, CHR 0xD0, CHR 0xBA, CHR 0xD0, CHR 0xB0, CHR '' '', CHR 0xD0, CHR 0xB0, CHR 0xD0,
    CHR 0xB2, CHR 0xD1, CHR 0x82, CHR 0xD0, CHR 0xBE, CHR 0xD1, CHR 0x80, CHR 0xD0, CHR 0xB8,
    CHR 0xD0, CHR 0xB7, CHR 0xD0, CHR 0xB0, CHR 0xD1, CHR 0x86, CHR 0xD1, CHR 0x96, CHR 0xD1,
    CHR 0x97]"

definition msgFileTooLarge :: string where
  "msgFileTooLarge =
   [CHR 0xD0, CHR 0xB7, CHR 0xD0, CHR 0xB0, CHR 0xD0, CHR 0xBD, CHR 0xD0, CHR 0xB0, CHR 0xD0,
    CHR 0xB4, CHR 0xD1, CHR 0x82, CHR 0xD0, CHR 0xBE, CHR '' '', CHR 0xD0, CHR 0xB2, CHR 0xD0,
    CHR 0xB5, CHR 0xD0, CHR 0xBB, CHR 0xD0, CHR 0xB8, CHR 0xD0, CHR 0xBA, CHR 0xD0, CHR 0xB8,
    CHR 0xD0, CHR 0xB9, CHR '' '', CHR 0xD1, CHR 0x84, CHR 0xD0, CHR 0xB0, CHR 0xD0, CHR 0xB9,
    CHR 0xD0, CHR 0xBB, CHR ''.'', CHR '' '', CHR 0xD0, CHR 0xBD, CHR 0xD0, CHR 0xB5,
    CHR '' '', CHR 0xD0, CHR 0xB2, CHR 0xD0, CHR 0xB4, CHR 0xD0, CHR 0xB0, CHR 0xD0, CHR 0xBB,
    CHR 0xD0, CHR 0xBE, CHR 0xD1, CHR 0x81, CHR 0xD1, CHR 0x8F, CHR '' '', CHR 0xD0, CHR 0xB2,
    CHR 0xD1, CHR 0x96, CHR 0xD0, CHR 0xB4, CHR 0xD0, CHR 0xBF, CHR 0xD1, CHR 0x80, CHR 0xD0,
    CHR 0xB0, CHR 0xD0, CHR 0xB2, CHR 0xD0, CHR 0xB8, CHR 0xD1, CHR 0x82, CHR 0xD0, CHR 0xB8]"

definition msgDownloadFailed :: string where
  "msgDownloadFailed =
   [CHR '' '', CHR ''('', CHR 0xD0, CHR 0xBD, CHR 0xD0, CHR 0xB5, CHR '' '', CHR 0xD0,
    CHR 0xB2, CHR 0xD0, CHR 0xB4, CHR 0xD0, CHR 0xB0, CHR 0xD0, CHR 0xBB, CHR 0xD0, CHR 0xBE,
    CHR 0xD1, CHR 0x81, CHR 0xD1, CHR 0x8F, CHR '' '', CHR 0xD0, CHR 0xB7, CHR 0xD0, CHR 0xB0,
    CHR 0xD0, CHR 0xB2, CHR 0xD0, CHR 0xB0, CHR 0xD0, CHR 0xBD, CHR 0xD1, CHR 0x82, CHR 0xD0,
    CHR 0xB0, CHR 0xD0, CHR 0xB6, CHR 0xD0, CHR 0xB8, CHR 0xD1, CHR 0x82, CHR 0xD0, CHR 0xB8,
    CHR '')'']"

definition msgReaction :: string where
  "msgReaction =
   [CHR 0xD0, CHR 0xA0, CHR 0xD0, CHR 0xB5, CHR 0xD0, CHR 0xB0, CHR 0xD0, CHR 0xBA, CHR 0xD1,
    CHR 0x86, CHR 0xD1, CHR 0x96, CHR 0xD1, CHR 0x8F, CHR '':'', CHR '' '']"

definition msgOnMessage :: string where
  "msgOnMessage =
   [CHR '' '', CHR 0xD0, CHR 0xBD, CHR 0xD0, CHR 0xB0, CHR '' '', CHR 0xD0, CHR 0xBF, CHR 0xD0,
    CHR 0xBE, CHR 0xD0, CHR 0xB2, CHR 0xD1, CHR 0x96, CHR 0xD0, CHR 0xB4, CHR 0xD0, CHR 0xBE,
    CHR 0xD0, CHR 0xBC, CHR 0xD0, CHR 0xBB, CHR 0xD0, CHR 0xB5, CHR 0xD0, CHR 0xBD, CHR 0xD0,
    CHR 0xBD, CHR 0xD1, CHR 0x8F, CHR '' '']"

definition msgUnknownType :: string where
  "msgUnknownType =
   [CHR 0xD0, CHR 0x9D, CHR 0xD0, CHR 0xB5, CHR 0xD0, CHR 0xB2, CHR 0xD1, CHR 0x96, CHR 0xD0,
    CHR 0xB4, CHR 0xD0, CHR 0xBE, CHR 0xD0, CHR 0xBC, CHR 0xD0, CHR 0xB8, CHR 0xD0, CHR 0xB9,
    CHR '' '', CHR 0xD1, CHR 0x82, CHR 0xD0, CHR 0xB8, CHR 0xD0, CHR 0xBF, CHR '':'',
    CHR '' '']"

section \<open>Process state\<close>

text \<open>
  A \<open>Client\<close> object of the messaging library is a reference into \<open>store\<close>. The fields
  \<open>authInfo\<close> and \<open>destroyed\<close> are read from the client by the source; no statement of the
  source writes \<open>authInfo\<close>. The remaining fields are the values that the listeners
  attached to the client have captured.
\<close>

datatype res = Express nat | Literal bool

record client =
  clientId :: string
  authInfo :: bool
  destroyed :: bool
  initializeCalled :: bool
  boundPhone :: string
  boundLineId :: "string option"
  boundRes :: res
  hasQrListener :: bool

datatype action =
    QrTimeout nat string
  | CreateSession string "string option" res
  | InitializeClient string "string option"

record timer =
  tid :: nat
  delay :: nat
  action :: action

record http_response =
  statusCode :: nat
  json_body :: json

datatype content = Text string | Media string string string string

record state =
  store :: "nat \<Rightarrow> client"
  nclients :: nat
  clients :: "string \<rightharpoonup> nat"
  qrTimers :: "string \<rightharpoonup> nat"
  pending :: "timer list"
  ntimers :: nat
  dirs :: "string set"
  files :: "string \<rightharpoonup> string"
  deferred :: "nat \<rightharpoonup> http_response"
  webhook :: "json list"
  notified :: "(string \<times> string) list"
  outbox :: "(nat \<times> string \<times> content) list"

text \<open>
  \<open>Express q\<close> is the response object of request \<open>q\<close>; \<open>deferred\<close> records what has been
  sent on it. \<open>Literal b\<close> is the object literal \<open>{ headersSent: b }\<close>, which has neither
  \<open>json\<close> nor \<open>status\<close>: calling them throws. A second \<open>res.json\<close> on a response that has
  been sent throws as well. \<open>None\<close> is the exception.
\<close>

definition headersSent :: "res \<Rightarrow> state \<Rightarrow> bool" where
  "headersSent r s = (case r of Express q \<Rightarrow> deferred s q \<noteq> None | Literal b \<Rightarrow> b)"

definition res_json :: "res \<Rightarrow> nat \<Rightarrow> json \<Rightarrow> state \<Rightarrow> state option" where
  "res_json r c b s =
     (case r of
        Express q \<Rightarrow>
          (if deferred s q = None
           then Some (s\<lparr>deferred := (deferred s)(q \<mapsto> \<lparr>statusCode = c, json_body = b\<rparr>)\<rparr>)
           else None)
      | Literal _ \<Rightarrow> None)"

definition setTimeout :: "action \<Rightarrow> nat \<Rightarrow> state \<Rightarrow> nat \<times> state" where
  "setTimeout a ms s =
     (ntimers s,
      s\<lparr>pending := pending s @ [\<lparr>tid = ntimers s, delay = ms, action = a\<rparr>],
        ntimers := Suc (ntimers s)\<rparr>)"

definition clearTimeout :: "nat \<Rightarrow> state \<Rightarrow> state" where
  "clearTimeout t s = s\<lparr>pending := filter (\<lambda>x. tid x \<noteq> t) (pending s)\<rparr>"

definition clearQrTimer :: "string \<Rightarrow> state \<Rightarrow> state" where
  "clearQrTimer phoneNumber s =
     (case qrTimers s phoneNumber of
        None \<Rightarrow> s
      | Some t \<Rightarrow> (clearTimeout t s)\<lparr>qrTimers := (qrTimers s)(phoneNumber := None)\<rparr>)"

definition clients_delete :: "string \<Rightarrow> state \<Rightarrow> state" where
  "clients_delete phoneNumber s = s\<lparr>clients := (clients s)(phoneNumber := None)\<rparr>"

definition destroy :: "nat \<Rightarrow> state \<Rightarrow> state" where
  "destroy c s = s\<lparr>store := (store s)(c := (store s c)\<lparr>destroyed := True\<rparr>)\<rparr>"

text \<open>
  The file system: the directories that exist and the files with their base64 content.
  Calls succeed unless the source itself guards them.
\<close>

definition existsSync :: "string \<Rightarrow> state \<Rightarrow> bool" where
  "existsSync p s = (p \<in> dirs s \<or> files s p \<noteq> None)"

definition pathUnder :: "string \<Rightarrow> string \<Rightarrow> bool" where
  "pathUnder p q = (q = p \<or> take (Suc (length p)) q = p @ ''/'')"

definition removeSync :: "string \<Rightarrow> state \<Rightarrow> state" where
  "removeSync p s =
     s\<lparr>dirs := Set.filter (\<lambda>d. \<not> pathUnder p d) (dirs s),
       files := (\<lambda>q. if pathUnder p q then None else files s q)\<rparr>"

definition writeFileSync :: "string \<Rightarrow> string \<Rightarrow> state \<Rightarrow> state" where
  "writeFileSync p d s = s\<lparr>files := (files s)(p \<mapsto> d)\<rparr>"

section \<open>Session creation\<close>

text \<open>
  \<open>new Client\<close>, \<open>clients.set\<close>, the listeners and \<open>client.initialize()\<close>. The rejection of
  \<open>initialize\<close> arrives later, as the event \<open>InitializeRejected\<close>.
\<close>

definition newClient :: "string \<Rightarrow> string \<Rightarrow> string option \<Rightarrow> res \<Rightarrow> bool \<Rightarrow> state \<Rightarrow> state" where
  "newClient phoneNumber cid lineId r qr s =
     s\<lparr>store := (store s)(nclients s :=
           \<lparr>clientId = cid, authInfo = False, destroyed = False, initializeCalled = True,
            boundPhone = phoneNumber, boundLineId = lineId, boundRes = r, hasQrListener = qr\<rparr>),
       nclients := Suc (nclients s),
       clients := (clients s)(phoneNumber \<mapsto> nclients s)\<rparr>"

definition createSession :: "string \<Rightarrow> string option \<Rightarrow> res \<Rightarrow> state \<Rightarrow> state" where
  "createSession phoneNumber lineId r s =
     newClient phoneNumber (cleanedClientId phoneNumber) lineId r True s"

definition initializeClient :: "string \<Rightarrow> string option \<Rightarrow> state \<Rightarrow> state" where
  "initializeClient phoneNumber lineId s =
     (if existsSync (getSessionPath (cleanedClientId phoneNumber)) s
      then newClient phoneNumber (cleanedClientId phoneNumber) lineId (Literal False) False s
      else s)"

section \<open>Lifecycle listeners\<close>

text \<open>
  \<open>handleQrEvent\<close>: the argument \<open>qrImage\<close> is the result of \<open>qrcode.toDataURL\<close>, \<open>None\<close> when
  it throws. Every exception of the body is caught, so a throwing \<open>res.json\<close> leaves the
  timer unset.
\<close>

definition handleQrEvent :: "nat \<Rightarrow> string \<Rightarrow> res \<Rightarrow> string option \<Rightarrow> state \<Rightarrow> state" where
  "handleQrEvent c phoneNumber r qrImage s =
     (case qrImage of
        None \<Rightarrow> s
      | Some img \<Rightarrow>
          (case res_json r 200
                  (object [(''status'', JStr ''qr''), (''qr'', JStr img), (''phone'', JStr phoneNumber)]) s of
             None \<Rightarrow> s
           | Some s1 \<Rightarrow>
               (let (t, s2) = setTimeout (QrTimeout c phoneNumber) 30000 s1
                in s2\<lparr>qrTimers := (qrTimers s2)(phoneNumber \<mapsto> t)\<rparr>)))"

text \<open>The callback that \<open>handleQrEvent\<close> hands to \<open>setTimeout\<close>.\<close>

definition qrTimeout :: "nat \<Rightarrow> string \<Rightarrow> state \<Rightarrow> state" where
  "qrTimeout c phoneNumber s =
     (if \<not> authInfo (store s c)
      then snd (setTimeout (CreateSession phoneNumber None (Literal True)) 30000
                  (clearQrTimer phoneNumber (clients_delete phoneNumber (destroy c s))))
      else s)"

text \<open>
  \<open>handleReadyEvent\<close>: the backend notification is a GET whose outcome is given by the
  environment. A throwing \<open>fetch\<close> or \<open>notifyRes.json()\<close> jumps to the handler of the
  \<open>try\<close>, past the answer to the caller and the second \<open>clearQrTimer\<close>.
\<close>

datatype notify_outcome = NotifyThrows | NotifyNotOk | NotifyOk | NotifyOkUnparsable

definition handleReadyEvent ::
  "string \<Rightarrow> string option \<Rightarrow> res \<Rightarrow> notify_outcome \<Rightarrow> state \<Rightarrow> state" where
  "handleReadyEvent phoneNumber lineId r n s =
     (let s1 = clearQrTimer phoneNumber s;
          s2 = s1\<lparr>notified := notified s1 @ [(phoneNumber, case lineId of None \<Rightarrow> [] | Some l \<Rightarrow> l)]\<rparr>
      in if n = NotifyThrows \<or> n = NotifyOkUnparsable then s2
         else
           (case r of
              Express q \<Rightarrow>
                (if \<not> headersSent r s2
                 then (case res_json r 200
                              (object ([(''status'', JStr ''success''),
                                        (''message'', JStr msgAuthSuccess),
                                        (''phone'', JStr phoneNumber)] @
                                       optional ''lineId'' lineId)) s2 of
                         None \<Rightarrow> s2
                       | Some s3 \<Rightarrow> clearQrTimer phoneNumber s3)
                 else clearQrTimer phoneNumber s2)
            | Literal _ \<Rightarrow> clearQrTimer phoneNumber s2))"

definition handleAuthenticatedEvent :: "string \<Rightarrow> state \<Rightarrow> state" where
  "handleAuthenticatedEvent phoneNumber s = clearQrTimer phoneNumber s"

text \<open>
  \<open>handleAuthFailureEvent\<close> has no \<open>try\<close>: with the default \<open>{ headersSent: false }\<close> the call
  \<open>res.status(401)\<close> throws out of the listener and nothing after it runs.
\<close>

definition handleAuthFailureEvent :: "string \<Rightarrow> res \<Rightarrow> state \<Rightarrow> state" where
  "handleAuthFailureEvent phoneNumber r s =
     (let recover = (\<lambda>s'. snd (setTimeout (CreateSession phoneNumber None (Literal True)) 30000
                                  (clearQrTimer phoneNumber (clients_delete phoneNumber s'))))
      in if \<not> headersSent r s
         then (case res_json r 401
                      (object [(''status'', JStr ''error''), (''message'', JStr msgAuthFailure)]) s of
                 None \<Rightarrow> s
               | Some s1 \<Rightarrow> recover s1)
         else recover s)"

definition handleDisconnectedEvent :: "string \<Rightarrow> state \<Rightarrow> state" where
  "handleDisconnectedEvent phoneNumber s =
     snd (setTimeout (InitializeClient phoneNumber None) 30000
            (clearQrTimer phoneNumber (clients_delete phoneNumber s)))"

text \<open>The \<open>catch\<close> attached to \<open>client.initialize()\<close> by \<open>createSession\<close> and by \<open>initializeClient\<close>.\<close>

definition createSessionRejected :: "string \<Rightarrow> string option \<Rightarrow> state \<Rightarrow> state" where
  "createSessionRejected phoneNumber lineId s =
     snd (setTimeout (CreateSession phoneNumber lineId (Literal True)) 30000
            (clients_delete phoneNumber s))"

definition initializeClientRejected :: "string \<Rightarrow> string option \<Rightarrow> state \<Rightarrow> state" where
  "initializeClientRejected phoneNumber lineId s =
     snd (setTimeout (InitializeClient phoneNumber lineId) 30000
            (clients_delete phoneNumber s))"

section \<open>Inbound messages\<close>

text \<open>
  The result of \<open>message.downloadMedia()\<close>: it throws, yields nothing, or yields the media.
  \<open>decodedLength\<close> is \<open>Buffer.from(media.data, 'base64').length\<close>.
\<close>

record media =
  media_data :: string
  mimetype :: string
  decodedLength :: nat

datatype download = DownloadThrows | NoMedia | Downloaded media

record message =
  msg_from :: string
  msg_to :: string
  msg_id :: string
  msg_remote :: string
  msg_timestamp :: int
  msg_type :: string
  msg_body :: string
  msg_filename :: string
  msg_caption :: string
  msg_reaction :: string
  downloadMedia :: download

definition defaultMimeType :: "string \<Rightarrow> string" where
  "defaultMimeType type =
     type @ ''/'' @
     (if type = ''sticker'' then ''webp''
      else if type = ''audio'' then ''ogg''
      else if type = ''video'' then ''mp4''
      else ''jpg'')"

text \<open>
  The media branch of the \<open>switch\<close>. It yields the text, the media object and the state,
  or \<open>None\<close> when \<open>downloadMedia\<close> throws. The source compares
  \<open>fileSizeInBytes / (1024 * 1024)\<close> with 16; the division by a power of two is exact, so
  this is the comparison of the byte count with \<open>16 * (1024 * 1024)\<close>.
\<close>

definition mediaCase :: "message \<Rightarrow> string \<Rightarrow> state \<Rightarrow> (string \<times> json \<times> state) option" where
  "mediaCase message phoneNumber s =
     (let type = msg_type message;
          messageId = msg_id message;
          messageText = orElse (msg_body message) type
      in case downloadMedia message of
           DownloadThrows \<Rightarrow> None
         | NoMedia \<Rightarrow> Some (type @ msgDownloadFailed, JNull, s)
         | Downloaded m \<Rightarrow>
             (let sessionFolder = ''whatsapp_'' @ cleanedClientId phoneNumber;
                  filesDirectory = path_join sessionFolder ''files'';
                  s1 = (if \<not> existsSync filesDirectory s
                        then s\<lparr>dirs := insert filesDirectory (insert sessionFolder (dirs s))\<rparr>
                        else s);
                  fileSizeInBytes = decodedLength m
              in if fileSizeInBytes > 16 * (1024 * 1024)
                 then Some (msgFileTooLarge, JNull, s1)
                 else
                   (let mimeType = orElse (mimetype m) (defaultMimeType type);
                        filename = orElse (msg_filename message)
                          (type @ ''_'' @ messageId @ ''.'' @
                           nthOrElse (split (CHR ''/'') mimeType) 1 ''unknown'');
                        filePath = path_join filesDirectory filename
                    in Some (messageText,
                             object [(''id'', JStr messageId), (''mimeType'', JStr mimeType),
                                     (''caption'', JStr (msg_caption message)),
                                     (''filename'', JStr filePath)],
                             writeFileSync filePath (media_data m) s1))))"

definition isMediaType :: "string \<Rightarrow> bool" where
  "isMediaType type = (type \<in> {''image'', ''video'', ''audio'', ''document'', ''sticker''})"

definition normalize :: "message \<Rightarrow> string \<Rightarrow> state \<Rightarrow> (string \<times> json \<times> state) option" where
  "normalize message phoneNumber s =
     (let type = msg_type message
      in if type = ''chat'' \<or> type = ''text'' then Some (msg_body message, JNull, s)
         else if isMediaType type then mediaCase message phoneNumber s
         else if type = ''reaction''
           then Some (msgReaction @ msg_reaction message @ msgOnMessage @ msg_remote message, JNull, s)
         else Some (msgUnknownType @ type, JNull, s))"

definition payload :: "message \<Rightarrow> string \<Rightarrow> string \<Rightarrow> json \<Rightarrow> json" where
  "payload message phoneNumber messageText mediaData =
     (let msg = object
            [(''id'', JStr (msg_id message)),
             (''from'', JStr (replaceFirst ''@c.us'' [] (msg_from message))),
             (''timestamp'', JNum (msg_timestamp message)),
             (''type'', JStr (msg_type message)),
             (''text'', object [(''body'', JStr messageText)]),
             (msg_type message, mediaData)];
          val = object
            [(''messages'', JArr [msg]),
             (''metadata'', object [(''phone_number_id'', JStr phoneNumber)])]
      in object [(''entry'', JArr [object [(''changes'', JArr [object [(''value'', val)]])]])])"

text \<open>
  \<open>handleMessageEvent\<close>: the two filters, the \<open>switch\<close>, then one POST of the payload to the
  webhook. The outcome of the POST is only logged. An exception of the \<open>switch\<close> is caught
  by the outer \<open>try\<close> before anything has been written.
\<close>

definition handleMessageEvent :: "message \<Rightarrow> string \<Rightarrow> state \<Rightarrow> state" where
  "handleMessageEvent message phoneNumber s =
     (if \<not> endsWith (msg_from message) ''@c.us'' \<or> \<not> endsWith (msg_to message) ''@c.us'' then s
      else if msg_from message = phoneNumber @ ''@c.us'' then s
      else (case normalize message phoneNumber s of
              None \<Rightarrow> s
            | Some (messageText, mediaData, s1) \<Rightarrow>
                s1\<lparr>webhook := webhook s1 @ [payload message phoneNumber messageText mediaData]\<rparr>))"

section \<open>Events of a client\<close>

datatype event =
    Qr "string option"
  | Ready notify_outcome
  | Authenticated
  | AuthFailure string
  | Disconnected string
  | Message message
  | InitializeRejected

text \<open>Only \<open>createSession\<close> attaches a \<open>qr\<close> listener, which tells its clients from the others.\<close>

definition emit :: "nat \<Rightarrow> event \<Rightarrow> state \<Rightarrow> state" where
  "emit c e s =
     (let l = store s c
      in case e of
           Qr img \<Rightarrow> if hasQrListener l then handleQrEvent c (boundPhone l) (boundRes l) img s else s
         | Ready n \<Rightarrow> handleReadyEvent (clientId l) (boundLineId l) (boundRes l) n s
         | Authenticated \<Rightarrow> handleAuthenticatedEvent (boundPhone l) s
         | AuthFailure msg \<Rightarrow> handleAuthFailureEvent (boundPhone l) (boundRes l) s
         | Disconnected reason \<Rightarrow> handleDisconnectedEvent (boundPhone l) s
         | Message m \<Rightarrow> handleMessageEvent m (boundPhone l) s
         | InitializeRejected \<Rightarrow>
             if hasQrListener l then createSessionRejected (boundPhone l) (boundLineId l) s
             else initializeClientRejected (boundPhone l) (boundLineId l) s)"

text \<open>A timer that is due leaves \<open>pending\<close> and runs its callback.\<close>

definition run :: "action \<Rightarrow> state \<Rightarrow> state" where
  "run a s =
     (case a of
        QrTimeout c phoneNumber \<Rightarrow> qrTimeout c phoneNumber s
      | CreateSession phoneNumber lineId r \<Rightarrow> createSession phoneNumber lineId r s
      | InitializeClient phoneNumber lineId \<Rightarrow> initializeClient phoneNumber lineId s)"

definition fire :: "nat \<Rightarrow> state \<Rightarrow> state" where
  "fire t s =
     (case find (\<lambda>x. tid x = t) (pending s) of
        None \<Rightarrow> s
      | Some x \<Rightarrow> run (action x) (clearTimeout t s))"

section \<open>Bootstrap\<close>

text \<open>
  What one GET of the registered phones yields: \<open>fetch\<close> throws, or there is a response
  with a status and a body. \<open>response.ok\<close> is a status from 200 to 299.
\<close>

datatype fetched = Unparsable | NotAnArray | Array "(string \<times> string option) list"

datatype fetch_outcome = FetchThrows | Response nat fetched

text \<open>The body of the \<open>try\<close>: \<open>None\<close> when it throws, else the value it returns.\<close>

definition tryFetch :: "fetch_outcome \<Rightarrow> (string \<times> string option) list option" where
  "tryFetch out =
     (case out of
        FetchThrows \<Rightarrow> None
      | Response st b \<Rightarrow>
          (if \<not> (200 \<le> st \<and> st \<le> 299) \<or> st = 204 then None
           else (case b of
                   Unparsable \<Rightarrow> None
                 | NotAnArray \<Rightarrow> Some []
                 | Array xs \<Rightarrow> Some xs)))"

text \<open>
  A run of \<open>fetchRegisteredPhones\<close>: the list it returns, the number of requests it made
  and the delays it waited. \<open>env k\<close> is the outcome of the request of attempt \<open>k\<close>.
\<close>

record fetch_run =
  phones :: "(string \<times> string option) list"
  requests :: nat
  waits :: "nat list"

function fetchLoop :: "nat \<Rightarrow> nat \<Rightarrow> nat \<Rightarrow> (nat \<Rightarrow> fetch_outcome) \<Rightarrow> fetch_run" where
  "fetchLoop attempt maxRetries retryDelay env =
     (if attempt \<le> maxRetries
      then (case tryFetch (env attempt) of
              Some data \<Rightarrow> \<lparr>phones = data, requests = 1, waits = []\<rparr>
            | None \<Rightarrow>
                (if attempt = maxRetries then \<lparr>phones = [], requests = 1, waits = []\<rparr>
                 else (let r = fetchLoop (Suc attempt) maxRetries retryDelay env
                       in r\<lparr>requests := Suc (requests r), waits := retryDelay # waits r\<rparr>)))
      else \<lparr>phones = [], requests = 0, waits = []\<rparr>)"
  by pat_completeness auto
termination
  by (relation "measure (\<lambda>(attempt, maxRetries, retryDelay, env). Suc maxRetries - attempt)") auto

declare fetchLoop.simps [simp del]

definition fetchRegisteredPhones :: "nat \<Rightarrow> nat \<Rightarrow> (nat \<Rightarrow> fetch_outcome) \<Rightarrow> fetch_run" where
  "fetchRegisteredPhones maxRetries retryDelay env = fetchLoop 1 maxRetries retryDelay env"

text \<open>
  The loop of \<open>initializeRegisteredSessions\<close> over the registered phones. \<open>rejects p\<close> tells
  whether the awaited \<open>client.initialize()\<close> of phone \<open>p\<close> rejects.
\<close>

fun resumeSessions ::
  "(string \<times> string option) list \<Rightarrow> (string \<Rightarrow> bool) \<Rightarrow> state \<Rightarrow> state" where
  "resumeSessions [] rejects s = s"
| "resumeSessions ((phoneNumber, lineId) # rest) rejects s =
     resumeSessions rest rejects
       (if existsSync (getSessionPath (cleanedClientId phoneNumber)) s
        then (let s1 = newClient phoneNumber (cleanedClientId phoneNumber) lineId
                         (Literal False) False s
              in if rejects phoneNumber then initializeClientRejected phoneNumber lineId s1
                 else s1)
        else s)"

definition initializeRegisteredSessions ::
  "(nat \<Rightarrow> fetch_outcome) \<Rightarrow> (string \<Rightarrow> bool) \<Rightarrow> state \<Rightarrow> state" where
  "initializeRegisteredSessions env rejects s =
     (let registeredPhones = phones (fetchRegisteredPhones 5 30000 env)
      in if registeredPhones = [] then s else resumeSessions registeredPhones rejects s)"

section \<open>HTTP control surface\<close>

text \<open>
  A handler returns the response it sends itself. \<open>POST /registerwhatsapp\<close> may leave the
  answer to the listeners of the new client: it then returns \<open>None\<close> and hands them the
  response object \<open>Express q\<close> of the request.
\<close>

definition respond :: "nat \<Rightarrow> (string \<times> json) list \<Rightarrow> http_response" where
  "respond c props = \<lparr>statusCode = c, json_body = object props\<rparr>"

definition post_registerwhatsapp ::
  "string \<Rightarrow> string option \<Rightarrow> nat \<Rightarrow> state \<Rightarrow> http_response option \<times> state" where
  "post_registerwhatsapp phone lineId q s =
     (if \<not> truthy phone
      then (Some (respond 400 [(''status'', JStr ''error''), (''message'', JStr msgPhoneRequired)]), s)
      else if clients s phone \<noteq> None \<or> existsSync (getSessionPath phone) s
      then (Some (respond 200 ([(''status'', JStr ''connected''), (''message'', JStr msgSessionExists),
                                (''phone'', JStr phone)] @ optional ''lineId'' lineId)), s)
      else (None, createSession phone lineId (Express q) s))"

record sendmsg_request =
  req_from :: string
  req_to :: string
  req_message :: string
  contentType :: "string option"
  filePath :: string
  bitrixMessageId :: "string option"

text \<open>
  \<open>client.sendMessage\<close> throws with a message, or returns the id of the sent message, empty
  when the provider gives none.
\<close>

datatype send_outcome = SendThrows string | SendReturns string

definition sendMessage ::
  "nat \<Rightarrow> string \<Rightarrow> content \<Rightarrow> sendmsg_request \<Rightarrow> send_outcome \<Rightarrow> string \<Rightarrow> state
     \<Rightarrow> http_response \<times> state" where
  "sendMessage c chatId body req out randomId s =
     (case out of
        SendThrows err \<Rightarrow> (respond 500 [(''status'', JStr ''error''), (''message'', JStr err)], s)
      | SendReturns i \<Rightarrow>
          (respond 200 ([(''status'', JStr ''sent''), (''messageId'', JStr (orElse i randomId))] @
                        optional ''bitrixMessageId'' (bitrixMessageId req)),
           s\<lparr>outbox := outbox s @ [(c, chatId, body)]\<rparr>))"

definition msgIsDirectory :: string where
  "msgIsDirectory = ''EISDIR: illegal operation on a directory, read''"

definition post_sendmsg ::
  "sendmsg_request \<Rightarrow> send_outcome \<Rightarrow> string \<Rightarrow> state \<Rightarrow> http_response \<times> state" where
  "post_sendmsg req out randomId s =
     (if \<not> truthy (req_from req) \<or> \<not> truthy (req_to req) \<or> \<not> truthy (req_message req)
      then (respond 400 [(''status'', JStr ''error''), (''message'', JStr msgRequiredParams)], s)
      else (case clients s (req_from req) of
              None \<Rightarrow>
                (respond 404 [(''status'', JStr ''error''), (''message'', JStr msgClientNotConnected)],
                 snd (setTimeout (CreateSession (req_from req) None (Literal True)) 30000 s))
            | Some c \<Rightarrow>
                (let chatId = req_to req @ ''@c.us'';
                     ct = (case contentType req of None \<Rightarrow> ''text'' | Some t \<Rightarrow> t)
                 in if ct = ''text''
                    then sendMessage c chatId (Text (req_message req)) req out randomId s
                    else if truthy (filePath req)
                    then (if \<not> existsSync (filePath req) s
                          then (respond 400 [(''status'', JStr ''error''),
                                             (''message'', JStr (msgFileNotFound @ filePath req))], s)
                          else (case files s (filePath req) of
                                  None \<Rightarrow>
                                    (respond 500 [(''status'', JStr ''error''),
                                                  (''message'', JStr msgIsDirectory)], s)
                                | Some fileData \<Rightarrow>
                                    sendMessage c chatId
                                      (Media ct fileData (basename (filePath req)) (req_message req))
                                      req out randomId s))
                    else (respond 400 [(''status'', JStr ''error''),
                                       (''message'', JStr (msgUnsupportedContentType @ ct))], s))))"

definition get_status :: "string \<Rightarrow> state \<Rightarrow> http_response" where
  "get_status param s =
     (let phone = cleanedClientId param
      in if (case clients s phone of None \<Rightarrow> False | Some c \<Rightarrow> authInfo (store s c))
         then respond 200 [(''status'', JStr ''connected''), (''phone'', JStr phone),
                           (''isAuthenticated'', JBool True)]
         else respond 200 [(''status'', JStr ''disconnected''), (''phone'', JStr phone),
                           (''isAuthenticated'', JBool False)])"

definition delete_sessiondelete :: "string \<Rightarrow> state \<Rightarrow> http_response \<times> state" where
  "delete_sessiondelete param s =
     (let phone = cleanedClientId param;
          s1 = (case clients s phone of
                  None \<Rightarrow> s
                | Some c \<Rightarrow> clearQrTimer phone (clients_delete phone (destroy c s)));
          sessionPath = getSessionPath phone;
          cachePath = getCachePath phone;
          s2 = (if existsSync sessionPath s1 then removeSync sessionPath s1 else s1);
          s3 = (if existsSync cachePath s2 then removeSync cachePath s2 else s2)
      in (respond 200 [(''status'', JStr ''deleted''), (''phone'', JStr phone),
                       (''message'', JStr msgSessionDeleted)], s3))"

text \<open>The sessions that the registry holds for a phone.\<close>

definition sessionsOf :: "state \<Rightarrow> string \<Rightarrow> nat set" where
  "sessionsOf s phone = set_option (clients s phone)"

section \<open>Concrete states and inputs\<close>

text \<open>The state of a fresh process: no client, no timer, the two base directories.\<close>

definition noClient :: client where
  "noClient =
     \<lparr>clientId = [], authInfo = False, destroyed = False, initializeCalled = False,
      boundPhone = [], boundLineId = None, boundRes = Literal False, hasQrListener = False\<rparr>"

definition initialState :: state where
  "initialState =
     \<lparr>store = (\<lambda>_. noClient), nclients = 0, clients = Map.empty, qrTimers = Map.empty,
      pending = [], ntimers = 0, dirs = {AUTH_DIR, CACHE_DIR}, files = Map.empty,
      deferred = Map.empty, webhook = [], notified = [], outbox = []\<rparr>"


text \<open>Where the webhook payload keeps the text, the message and the owning phone.\<close>

definition messagePath :: "selector list" where
  "messagePath =
     [Key ''entry'', Idx 0, Key ''changes'', Idx 0, Key ''value'', Key ''messages'', Idx 0]"

definition textBodyPath :: "selector list" where
  "textBodyPath = messagePath @ [Key ''text'', Key ''body'']"

definition phoneNumberIdPath :: "selector list" where
  "phoneNumberIdPath =
     [Key ''entry'', Idx 0, Key ''changes'', Idx 0, Key ''value'', Key ''metadata'',
      Key ''phone_number_id'']"

text \<open>A message that passes the two filters of \<open>handleMessageEvent\<close>.\<close>

definition accepted :: "message \<Rightarrow> string \<Rightarrow> bool" where
  "accepted message phoneNumber =
     (endsWith (msg_from message) ''@c.us'' \<and> endsWith (msg_to message) ''@c.us'' \<and>
      msg_from message \<noteq> phoneNumber @ ''@c.us'')"

text \<open>
  Registration of a phone on a fresh process, the \<open>qr\<close> event, then authentication: the
  client emits \<open>authenticated\<close> and \<open>ready\<close>.
\<close>

definition registered :: "string \<Rightarrow> string option \<Rightarrow> state" where
  "registered phone lineId = snd (post_registerwhatsapp phone lineId 0 initialState)"

definition awaitingQrScan :: "string \<Rightarrow> string option \<Rightarrow> string \<Rightarrow> state" where
  "awaitingQrScan phone lineId qrImage = emit 0 (Qr (Some qrImage)) (registered phone lineId)"

definition pairAndAuthenticate :: "string \<Rightarrow> string option \<Rightarrow> string \<Rightarrow> state" where
  "pairAndAuthenticate phone lineId qrImage =
     emit 0 (Ready NotifyOk) (emit 0 Authenticated (awaitingQrScan phone lineId qrImage))"

definition qrImage0 :: string where
  "qrImage0 = ''data:image/png;base64,iVBORw0KGgo=''"

text \<open>A process that finds the credential and cache directories of a phone on disk.\<close>

definition persisted :: "string \<Rightarrow> state" where
  "persisted phone =
     initialState\<lparr>dirs := insert (getSessionPath phone) (insert (getCachePath phone)
                               (dirs initialState))\<rparr>"

definition textMessage :: message where
  "textMessage =
     \<lparr>msg_from = ''15550001111@c.us'', msg_to = ''15551234567@c.us'', msg_id = ''3EB0A1'',
      msg_remote = ''15550001111@c.us'', msg_timestamp = 1700000000, msg_type = ''chat'',
      msg_body = ''hello'', msg_filename = [], msg_caption = [], msg_reaction = [],
      downloadMedia = NoMedia\<rparr>"

text \<open>An image of 22369624 base64 characters, which decode to 16777218 bytes.\<close>

definition largeImage :: message where
  "largeImage =
     \<lparr>msg_from = ''15550001111@c.us'', msg_to = ''15551234567@c.us'', msg_id = ''3EB0A2'',
      msg_remote = ''15550001111@c.us'', msg_timestamp = 1700000001, msg_type = ''image'',
      msg_body = [], msg_filename = [], msg_caption = [], msg_reaction = [],
      downloadMedia =
        Downloaded \<lparr>media_data = replicate 22369624 (CHR ''A''), mimetype = ''image/jpeg'',
                    decodedLength = 16777218\<rparr>\<rparr>"

definition noRecipient :: sendmsg_request where
  "noRecipient =
     \<lparr>req_from = ''15551234567'', req_to = [], req_message = ''hello'', contentType = None,
      filePath = [], bitrixMessageId = None\<rparr>"

definition helloRequest :: sendmsg_request where
  "helloRequest =
     \<lparr>req_from = ''15551234567'', req_to = ''15550001111'', req_message = ''hello'',
      contentType = None, filePath = [], bitrixMessageId = Some ''42''\<rparr>"

section \<open>Bootstrap with a failing backend\<close>

lemma fetchLoop_all_fail:
  "(\<forall>k. attempt \<le> k \<and> k \<le> maxRetries \<longrightarrow> tryFetch (env k) = None) \<Longrightarrow>
   fetchLoop attempt maxRetries retryDelay env =
     \<lparr>phones = [], requests = Suc maxRetries - attempt,
      waits = replicate (maxRetries - attempt) retryDelay\<rparr>"
proof (induction attempt maxRetries retryDelay env rule: fetchLoop.induct)
  case (1 attempt maxRetries retryDelay env)
  show ?case
  proof (cases "attempt \<le> maxRetries")
    case False
    then show ?thesis by (subst fetchLoop.simps) simp
  next
    case le: True
    with 1 have none: "tryFetch (env attempt) = None" by simp
    show ?thesis
    proof (cases "attempt = maxRetries")
      case True
      with none show ?thesis by (subst fetchLoop.simps) simp
    next
      case False
      with le have lt: "attempt < maxRetries" by simp
      have "fetchLoop (Suc attempt) maxRetries retryDelay env =
         \<lparr>phones = [], requests = Suc maxRetries - Suc attempt,
          waits = replicate (maxRetries - Suc attempt) retryDelay\<rparr>"
        using "1.IH"[OF le none False] "1.prems" by simp
      moreover have "retryDelay # replicate (maxRetries - Suc attempt) retryDelay =
          replicate (maxRetries - attempt) retryDelay"
        using lt by (metis Suc_diff_Suc replicate_Suc)
      ultimately show ?thesis
        using le none False lt by (subst fetchLoop.simps) (simp add: Suc_diff_le)
    qed
  qed
qed

text \<open>
  C5. When the request fails on every attempt, \<open>fetchRegisteredPhones\<close> makes exactly
  \<open>maxRetries\<close> requests, waits \<open>retryDelay\<close> between two of them, and returns the empty
  list as an ordinary value; with the default of 5 attempts,
  \<open>initializeRegisteredSessions\<close> then leaves the state as it found it: no session is
  resumed.
\<close>

theorem fetchRegisteredPhones_exhausted:
  "(\<forall>k. 1 \<le> k \<and> k \<le> maxRetries \<longrightarrow> tryFetch (env k) = None) \<Longrightarrow>
   fetchRegisteredPhones maxRetries retryDelay env =
     \<lparr>phones = [], requests = maxRetries, waits = replicate (maxRetries - 1) retryDelay\<rparr> \<and>
   (maxRetries = 5 \<longrightarrow> initializeRegisteredSessions env rejects s = s)"
proof -
  assume a: "\<forall>k. 1 \<le> k \<and> k \<le> maxRetries \<longrightarrow> tryFetch (env k) = None"
  have l: "\<And>d. fetchLoop (Suc 0) maxRetries d env =
     \<lparr>phones = [], requests = maxRetries, waits = replicate (maxRetries - Suc 0) d\<rparr>"
    using fetchLoop_all_fail[of "Suc 0" maxRetries env] a by simp
  have "initializeRegisteredSessions env rejects s = s" if "maxRetries = 5"
  proof -
    have "phones (fetchLoop (Suc 0) 5 30000 env) = []"
      using l[of 30000] that by simp
    then show ?thesis
      by (simp add: fetchRegisteredPhones_def initializeRegisteredSessions_def)
  qed
  then show ?thesis
    by (simp add: l fetchRegisteredPhones_def)
qed

theorem fetchRegisteredPhones_exhausted_witness:
  "fetchRegisteredPhones 5 30000 (\<lambda>_. FetchThrows) =
     \<lparr>phones = [], requests = 5, waits = [30000, 30000, 30000, 30000]\<rparr> \<and>
   initializeRegisteredSessions (\<lambda>_. FetchThrows) (\<lambda>_. False) initialState = initialState"
proof -
  have h: "\<forall>k. 1 \<le> k \<and> k \<le> 5 \<longrightarrow> tryFetch ((\<lambda>_. FetchThrows) k) = None"
    by (simp add: tryFetch_def)
  have "replicate (5 - 1) d = [d, d, d, d]" for d :: nat
    by (simp add: numeral_eq_Suc)
  then have r: "replicate (5 - 1) (30000::nat) = [30000, 30000, 30000, 30000]" .
  have t: "fetchRegisteredPhones 5 30000 (\<lambda>_. FetchThrows) =
      \<lparr>phones = [], requests = 5, waits = replicate (5 - 1) 30000\<rparr> \<and>
    (5 = (5::nat) \<longrightarrow>
      initializeRegisteredSessions (\<lambda>_. FetchThrows) (\<lambda>_. False) initialState = initialState)"
    by (rule fetchRegisteredPhones_exhausted[OF h])
  show ?thesis
    using t unfolding r by blast
qed

section \<open>Registry and registration\<close>

lemmas listener_defs = createSession_def newClient_def emit_def
  handleQrEvent_def handleReadyEvent_def handleAuthenticatedEvent_def res_json_def headersSent_def
  setTimeout_def clearQrTimer_def clearTimeout_def

lemma initialState_fs: "\<not> existsSync (getSessionPath p) initialState"
  by (simp add: existsSync_def initialState_def getSessionPath_def path_join_def AUTH_DIR_def CACHE_DIR_def)

lemma registered_createSession:
  "truthy phone \<Longrightarrow> registered phone lineId = createSession phone lineId (Express 0) initialState"
  using initialState_fs[of phone]
  by (simp add: registered_def post_registerwhatsapp_def initialState_def)

lemma registered_clients:
  "truthy phone \<Longrightarrow> clients (registered phone lineId) = [phone \<mapsto> 0]"
  by (simp add: registered_createSession createSession_def newClient_def initialState_def)

lemma truthy_phone: "truthy ''15551234567''" "truthy ''+15551234567''"
  by (simp_all add: truthy_def)

text \<open>
  C1. The registry is a map, so it holds at most one session for a phone in every state.
  A \<open>POST /registerwhatsapp\<close> that names a phone with a session in the registry answers
  200 with status \<open>connected\<close> and returns the state as it was: no client is created and
  the entry of the phone is not replaced.
\<close>

theorem register_existing:
  "card (sessionsOf s phone) \<le> 1 \<and>
   (truthy phone \<and> clients s phone = Some c \<longrightarrow>
    post_registerwhatsapp phone lineId q s =
     (Some (respond 200 ([(''status'', JStr ''connected''), (''message'', JStr msgSessionExists),
                          (''phone'', JStr phone)] @ optional ''lineId'' lineId)), s))"
  by (cases "clients s phone") (simp_all add: post_registerwhatsapp_def sessionsOf_def)

theorem register_existing_witness:
  "card (sessionsOf (registered ''15551234567'' None) ''15551234567'') \<le> 1 \<and>
   post_registerwhatsapp ''15551234567'' (Some ''7'') 1 (registered ''15551234567'' None) =
     (Some (respond 200 [(''status'', JStr ''connected''), (''message'', JStr msgSessionExists),
                         (''phone'', JStr ''15551234567''), (''lineId'', JStr ''7'')]),
      registered ''15551234567'' None)"
  using register_existing[of "registered ''15551234567'' None" "''15551234567''" 0 "Some ''7''" 1]
    registered_clients[OF truthy_phone(1), of None] truthy_phone(1)
  by (simp add: optional_def)

text \<open>
  C10. A \<open>POST /registerwhatsapp\<close> that names a phone without a session in the registry,
  but with a credential directory on disk, answers 200 with status \<open>connected\<close> and leaves
  the state as it was: no client is created and no pairing starts.
\<close>

theorem register_persisted:
  "truthy phone \<Longrightarrow> clients s phone = None \<Longrightarrow> getSessionPath phone \<in> dirs s \<Longrightarrow>
   post_registerwhatsapp phone lineId q s =
     (Some (respond 200 ([(''status'', JStr ''connected''), (''message'', JStr msgSessionExists),
                          (''phone'', JStr phone)] @ optional ''lineId'' lineId)), s)"
  by (simp add: post_registerwhatsapp_def existsSync_def)

theorem register_persisted_witness:
  "post_registerwhatsapp ''+15551234567'' None 0 (persisted ''+15551234567'') =
     (Some (respond 200 [(''status'', JStr ''connected''), (''message'', JStr msgSessionExists),
                         (''phone'', JStr ''+15551234567'')]),
      persisted ''+15551234567'')"
proof -
  have c: "clients (persisted ''+15551234567'') ''+15551234567'' = None"
    by (simp add: persisted_def initialState_def)
  have d: "getSessionPath ''+15551234567'' \<in> dirs (persisted ''+15551234567'')"
    by (simp add: persisted_def)
  show ?thesis
    using register_persisted[OF truthy_phone(2) c d, of None 0] by (simp add: optional_def)
qed

section \<open>Status\<close>

text \<open>
  C9. \<open>GET /status/:phone\<close> answers 200 with either status \<open>connected\<close> and
  \<open>isAuthenticated: true\<close>, or status \<open>disconnected\<close> and \<open>isAuthenticated: false\<close>.
\<close>

theorem get_status_coupled:
  "statusCode (get_status param s) = 200 \<and>
   ((select (json_body (get_status param s)) (Key ''status'') = Some (JStr ''connected'') \<and>
     select (json_body (get_status param s)) (Key ''isAuthenticated'') = Some (JBool True)) \<or>
    (select (json_body (get_status param s)) (Key ''status'') = Some (JStr ''disconnected'') \<and>
     select (json_body (get_status param s)) (Key ''isAuthenticated'') = Some (JBool False)))"
  by (simp add: get_status_def respond_def object_def Let_def)

text \<open>
  After registration, the \<open>qr\<close> answer and authentication, the registry holds the session
  under the phone as it was given, while \<open>GET /status/:phone\<close> looks it up under the
  cleaned phone.
\<close>

lemma paired_registry:
  "truthy phone \<Longrightarrow> clients (pairAndAuthenticate phone lineId img) = [phone \<mapsto> 0]"
  unfolding pairAndAuthenticate_def awaitingQrScan_def
  by (simp add: registered_createSession)
     (simp add: listener_defs initialState_def Let_def split: option.splits)

lemma status_misses_cleaned_key:
  "truthy phone \<Longrightarrow> cleanedClientId phone \<noteq> phone \<Longrightarrow>
   get_status phone (pairAndAuthenticate phone lineId img) =
     respond 200 [(''status'', JStr ''disconnected''), (''phone'', JStr (cleanedClientId phone)),
                  (''isAuthenticated'', JBool False)]"
  using paired_registry[of phone lineId img]
  by (simp add: get_status_def Let_def)

lemma awaitingQrScan_response:
  "truthy phone \<Longrightarrow>
   deferred (awaitingQrScan phone lineId img) 0 =
     Some (respond 200 [(''status'', JStr ''qr''), (''qr'', JStr img), (''phone'', JStr phone)])"
  unfolding awaitingQrScan_def
  by (simp add: registered_createSession) (simp add: listener_defs initialState_def respond_def)

text \<open>
  C4. For the phone \<open>+15551234567\<close> the registration is answered with the \<open>qr\<close> response,
  the client authenticates and becomes ready, and \<open>GET /status/+15551234567\<close> then answers
  \<open>disconnected\<close> with \<open>isAuthenticated: false\<close>: the registry holds the session under
  \<open>+15551234567\<close> and the handler looks it up under \<open>15551234567\<close>, where there is none.
\<close>

theorem status_plus_phone:
  "deferred (awaitingQrScan ''+15551234567'' (Some ''1'') qrImage0) 0 =
     Some (respond 200 [(''status'', JStr ''qr''), (''qr'', JStr qrImage0),
                        (''phone'', JStr ''+15551234567'')]) \<and>
   get_status ''+15551234567'' (pairAndAuthenticate ''+15551234567'' (Some ''1'') qrImage0) =
     respond 200 [(''status'', JStr ''disconnected''), (''phone'', JStr ''15551234567''),
                  (''isAuthenticated'', JBool False)] \<and>
   clients (pairAndAuthenticate ''+15551234567'' (Some ''1'') qrImage0) ''+15551234567'' = Some 0 \<and>
   clients (pairAndAuthenticate ''+15551234567'' (Some ''1'') qrImage0) ''15551234567'' = None"
proof -
  have c: "cleanedClientId ''+15551234567'' = ''15551234567''"
    by (simp add: cleanedClientId_def isIdChar_def)
  show ?thesis
    using awaitingQrScan_response[OF truthy_phone(2), of "Some ''1''" qrImage0]
      status_misses_cleaned_key[OF truthy_phone(2), of "Some ''1''" qrImage0]
      paired_registry[OF truthy_phone(2), of "Some ''1''" qrImage0] c
    by simp
qed

theorem status_plus_phone_witness:
  "select (json_body (get_status ''+15551234567''
      (pairAndAuthenticate ''+15551234567'' (Some ''1'') qrImage0))) (Key ''isAuthenticated'') =
     Some (JBool False)"
  using status_plus_phone by (simp add: respond_def object_def)

section \<open>Pairing timeout\<close>

text \<open>
  C2. The \<open>qr\<close> listener answers the pending request and arms one timer of 30000 ms for
  the phone. When that timer runs and the client has no \<open>authInfo\<close>, its callback destroys
  the client, removes the phone from the registry, clears the QR timer of the phone, and
  adds exactly one timer: \<open>createSession\<close> for the same phone after 30000 ms.
\<close>

theorem qr_timeout_recovery:
  "(deferred s q = None \<longrightarrow>
      handleQrEvent c phoneNumber (Express q) (Some img) s =
        s\<lparr>deferred := (deferred s)(q \<mapsto> respond 200 [(''status'', JStr ''qr''), (''qr'', JStr img),
                                                      (''phone'', JStr phoneNumber)]),
          pending := pending s @ [\<lparr>tid = ntimers s, delay = 30000, action = QrTimeout c phoneNumber\<rparr>],
          ntimers := Suc (ntimers s),
          qrTimers := (qrTimers s)(phoneNumber \<mapsto> ntimers s)\<rparr>) \<and>
   (\<not> authInfo (store s c) \<longrightarrow>
      destroyed (store (qrTimeout c phoneNumber s) c) \<and>
      clients (qrTimeout c phoneNumber s) phoneNumber = None \<and>
      qrTimers (qrTimeout c phoneNumber s) phoneNumber = None \<and>
      pending (qrTimeout c phoneNumber s) =
        filter (\<lambda>x. Some (tid x) \<noteq> qrTimers s phoneNumber) (pending s) @
        [\<lparr>tid = ntimers s, delay = 30000, action = CreateSession phoneNumber None (Literal True)\<rparr>])"
  by (cases "qrTimers s phoneNumber")
     (simp_all add: handleQrEvent_def res_json_def respond_def setTimeout_def qrTimeout_def
        clearQrTimer_def clearTimeout_def clients_delete_def destroy_def)

lemma awaitingQrScan_state:
  "truthy phone \<Longrightarrow>
   awaitingQrScan phone lineId img =
     handleQrEvent 0 phone (Express 0) (Some img) (registered phone lineId) \<and>
   deferred (registered phone lineId) 0 = None \<and>
   \<not> authInfo (store (registered phone lineId) 0) \<and>
   pending (registered phone lineId) = [] \<and> ntimers (registered phone lineId) = 0 \<and>
   qrTimers (registered phone lineId) = Map.empty"
  unfolding awaitingQrScan_def
  by (simp add: registered_createSession)
     (simp add: emit_def createSession_def newClient_def initialState_def)

lemma fire_awaitingQrScan:
  "truthy phone \<Longrightarrow>
   fire 0 (awaitingQrScan phone lineId img) =
     qrTimeout 0 phone ((awaitingQrScan phone lineId img)\<lparr>pending := []\<rparr>)"
  using awaitingQrScan_state[of phone lineId img]
  by (simp add: fire_def run_def clearTimeout_def handleQrEvent_def res_json_def setTimeout_def)

theorem qr_timeout_recovery_witness:
  "pending (awaitingQrScan ''15551234567'' None qrImage0) =
     [\<lparr>tid = 0, delay = 30000, action = QrTimeout 0 ''15551234567''\<rparr>] \<and>
   destroyed (store (fire 0 (awaitingQrScan ''15551234567'' None qrImage0)) 0) \<and>
   clients (fire 0 (awaitingQrScan ''15551234567'' None qrImage0)) ''15551234567'' = None \<and>
   qrTimers (fire 0 (awaitingQrScan ''15551234567'' None qrImage0)) ''15551234567'' = None \<and>
   pending (fire 0 (awaitingQrScan ''15551234567'' None qrImage0)) =
     [\<lparr>tid = 1, delay = 30000, action = CreateSession ''15551234567'' None (Literal True)\<rparr>]"
proof -
  let ?r = "registered ''15551234567'' None"
  let ?a = "awaitingQrScan ''15551234567'' None qrImage0"
  note st = awaitingQrScan_state[OF truthy_phone(1), of None qrImage0]
  have arm: "?a = ?r\<lparr>deferred := (deferred ?r)(0 \<mapsto> respond 200 [(''status'', JStr ''qr''),
                 (''qr'', JStr qrImage0), (''phone'', JStr ''15551234567'')]),
          pending := pending ?r @ [\<lparr>tid = ntimers ?r, delay = 30000, action = QrTimeout 0 ''15551234567''\<rparr>],
          ntimers := Suc (ntimers ?r),
          qrTimers := (qrTimers ?r)(''15551234567'' \<mapsto> ntimers ?r)\<rparr>"
    using qr_timeout_recovery[of ?r 0 0 "''15551234567''" qrImage0] st by simp
  have na: "\<not> authInfo (store (?a\<lparr>pending := []\<rparr>) 0)"
    using st by (simp add: arm)
  have p: "pending ?a = [\<lparr>tid = 0, delay = 30000, action = QrTimeout 0 ''15551234567''\<rparr>]"
    using st by (simp add: arm)
  have q: "qrTimers (?a\<lparr>pending := []\<rparr>) ''15551234567'' = Some 0" "ntimers (?a\<lparr>pending := []\<rparr>) = 1"
    using st by (simp_all add: arm)
  show ?thesis
    using qr_timeout_recovery[of "?a\<lparr>pending := []\<rparr>" 0 0 "''15551234567''" qrImage0] na p q
    by (simp add: fire_awaitingQrScan[OF truthy_phone(1)])
qed

section \<open>Webhook payload\<close>

lemma payload_metadata:
  "at_path (payload m p t md) phoneNumberIdPath = Some (JStr p)"
  by (simp add: payload_def object_def phoneNumberIdPath_def Let_def)

lemma payload_text_body:
  "msg_type m \<notin> {''id'', ''from'', ''timestamp'', ''type'', ''text''} \<Longrightarrow>
   at_path (payload m p t md) textBodyPath = Some (JStr t)"
  by (auto simp add: payload_def object_def textBodyPath_def messagePath_def Let_def)

lemma payload_media_field:
  "msg_type m \<notin> {''id'', ''from'', ''timestamp'', ''type'', ''text''} \<Longrightarrow>
   at_path (payload m p t md) (messagePath @ [Key (msg_type m)]) = Some md"
  by (auto simp add: payload_def object_def messagePath_def Let_def)

text \<open>
  C6. The library delivers a text message with the type \<open>chat\<close>. For such a message that
  passes the filters (an individual chat, from a sender other than the session's own
  phone) the handler makes exactly one POST to the webhook: the state changes only by one
  payload appended to \<open>webhook\<close>, and in that payload \<open>text.body\<close> is the body of the
  message as it came and \<open>metadata.phone_number_id\<close> is the phone of the session.
\<close>

theorem text_message_forwarded:
  "accepted m p \<Longrightarrow> msg_type m = ''chat'' \<Longrightarrow>
   handleMessageEvent m p s = s\<lparr>webhook := webhook s @ [payload m p (msg_body m) JNull]\<rparr> \<and>
   at_path (payload m p (msg_body m) JNull) textBodyPath = Some (JStr (msg_body m)) \<and>
   at_path (payload m p (msg_body m) JNull) phoneNumberIdPath = Some (JStr p)"
  by (simp add: accepted_def handleMessageEvent_def normalize_def payload_metadata payload_text_body)

theorem text_message_forwarded_witness:
  "webhook (handleMessageEvent textMessage ''15551234567'' initialState) =
     [payload textMessage ''15551234567'' ''hello'' JNull] \<and>
   at_path (payload textMessage ''15551234567'' ''hello'' JNull) textBodyPath =
     Some (JStr ''hello'') \<and>
   at_path (payload textMessage ''15551234567'' ''hello'' JNull) phoneNumberIdPath =
     Some (JStr ''15551234567'')"
proof -
  have a: "accepted textMessage ''15551234567''"
    by (simp add: accepted_def endsWith_def textMessage_def)
  have t: "msg_type textMessage = ''chat''" "msg_body textMessage = ''hello''"
    by (simp_all add: textMessage_def)
  have i: "webhook initialState = []"
    by (simp add: initialState_def)
  show ?thesis
    using text_message_forwarded[OF a t(1), of initialState] by (simp add: t(2) i)
qed

text \<open>
  C3. For an accepted message of a media type whose downloaded media decodes to more than
  16 MiB, the handler writes no file, posts the message to the webhook with the fixed
  oversized-file notice as \<open>text.body\<close>, and the property named by the type is \<open>null\<close>.
\<close>

theorem oversized_media:
  "accepted m p \<Longrightarrow> isMediaType (msg_type m) \<Longrightarrow> downloadMedia m = Downloaded md \<Longrightarrow>
   decodedLength md > 16 * (1024 * 1024) \<Longrightarrow>
   files (handleMessageEvent m p s) = files s \<and>
   webhook (handleMessageEvent m p s) = webhook s @ [payload m p msgFileTooLarge JNull] \<and>
   at_path (payload m p msgFileTooLarge JNull) textBodyPath = Some (JStr msgFileTooLarge) \<and>
   at_path (payload m p msgFileTooLarge JNull) (messagePath @ [Key (msg_type m)]) = Some JNull"
proof -
  assume a: "accepted m p" and t: "isMediaType (msg_type m)" and d: "downloadMedia m = Downloaded md"
    and big: "decodedLength md > 16 * (1024 * 1024)"
  from t have nt: "msg_type m \<noteq> ''chat''" "msg_type m \<noteq> ''text''"
       and safe: "msg_type m \<notin> {''id'', ''from'', ''timestamp'', ''type'', ''text''}"
    by (auto simp: isMediaType_def)
  define s1 where "s1 = (if \<not> existsSync (path_join (''whatsapp_'' @ cleanedClientId p) ''files'') s
       then s\<lparr>dirs := insert (path_join (''whatsapp_'' @ cleanedClientId p) ''files'')
                         (insert (''whatsapp_'' @ cleanedClientId p) (dirs s))\<rparr>
       else s)"
  have n: "normalize m p s = Some (msgFileTooLarge, JNull, s1)"
    using nt t d big by (simp add: normalize_def mediaCase_def Let_def s1_def)
  have h: "handleMessageEvent m p s = s1\<lparr>webhook := webhook s1 @ [payload m p msgFileTooLarge JNull]\<rparr>"
    using a by (simp add: handleMessageEvent_def accepted_def n)
  have "files s1 = files s" "webhook s1 = webhook s"
    by (simp_all add: s1_def)
  then show ?thesis
    by (simp add: h payload_text_body[OF safe] payload_media_field[OF safe])
qed

theorem oversized_media_witness:
  "files (handleMessageEvent largeImage ''15551234567'' initialState) = Map.empty \<and>
   webhook (handleMessageEvent largeImage ''15551234567'' initialState) =
     [payload largeImage ''15551234567'' msgFileTooLarge JNull] \<and>
   at_path (payload largeImage ''15551234567'' msgFileTooLarge JNull) textBodyPath =
     Some (JStr msgFileTooLarge) \<and>
   at_path (payload largeImage ''15551234567'' msgFileTooLarge JNull) (messagePath @ [Key ''image'']) =
     Some JNull"
proof -
  have a: "accepted largeImage ''15551234567''"
    by (simp add: accepted_def endsWith_def largeImage_def)
  have t: "isMediaType (msg_type largeImage)"
    by (simp add: isMediaType_def largeImage_def)
  have d: "downloadMedia largeImage =
      Downloaded \<lparr>media_data = replicate 22369624 (CHR ''A''), mimetype = ''image/jpeg'',
                  decodedLength = 16777218\<rparr>"
    by (simp add: largeImage_def)
  have big: "decodedLength \<lparr>media_data = replicate 22369624 (CHR ''A''), mimetype = ''image/jpeg'',
                  decodedLength = 16777218\<rparr> > 16 * (1024 * 1024)"
    by simp
  have ty: "msg_type largeImage = ''image''" by (simp add: largeImage_def)
  have i: "files initialState = Map.empty" "webhook initialState = []"
    by (simp_all add: initialState_def)
  show ?thesis
    using oversized_media[OF a t d big, of initialState] by (simp add: ty i)
qed

section \<open>Outbound send\<close>

text \<open>
  A \<open>POST /sendmsg\<close> without a recipient, from a phone that has no session: the answer is
  400, not 404, and the state stays as it was, with nothing scheduled.
\<close>

theorem sendmsg_missing_recipient:
  "clients initialState (req_from noRecipient) = None \<and>
   statusCode (fst (post_sendmsg noRecipient (SendReturns []) ''9f86d081884c7d65'' initialState)) = 400 \<and>
   snd (post_sendmsg noRecipient (SendReturns []) ''9f86d081884c7d65'' initialState) = initialState"
  by (simp add: post_sendmsg_def noRecipient_def initialState_def truthy_def respond_def)

text \<open>
  C7. A \<open>POST /sendmsg\<close> that carries \<open>from\<close>, \<open>to\<close> and \<open>message\<close>, from a phone that has
  no session in the registry, answers 404 with the text for a client that is not
  connected, sends nothing, and adds exactly one timer: \<open>createSession\<close> for \<open>from\<close>
  after 30000 ms. The timer carries no part of the request.
\<close>

theorem sendmsg_not_connected:
  "truthy (req_from req) \<Longrightarrow> truthy (req_to req) \<Longrightarrow> truthy (req_message req) \<Longrightarrow>
   clients s (req_from req) = None \<Longrightarrow>
   post_sendmsg req out randomId s =
     (respond 404 [(''status'', JStr ''error''), (''message'', JStr msgClientNotConnected)],
      s\<lparr>pending := pending s @
           [\<lparr>tid = ntimers s, delay = 30000,
             action = CreateSession (req_from req) None (Literal True)\<rparr>],
        ntimers := Suc (ntimers s)\<rparr>)"
  by (simp add: post_sendmsg_def setTimeout_def)

theorem sendmsg_not_connected_witness:
  "post_sendmsg helloRequest (SendReturns []) ''9f86d081884c7d65'' initialState =
     (respond 404 [(''status'', JStr ''error''), (''message'', JStr msgClientNotConnected)],
      initialState\<lparr>pending :=
           [\<lparr>tid = 0, delay = 30000, action = CreateSession ''15551234567'' None (Literal True)\<rparr>],
        ntimers := 1\<rparr>)"
proof -
  have t: "truthy (req_from helloRequest)" "truthy (req_to helloRequest)"
      "truthy (req_message helloRequest)"
    by (simp_all add: truthy_def helloRequest_def)
  have c: "clients initialState (req_from helloRequest) = None"
    by (simp add: initialState_def)
  have i: "pending initialState = []" "ntimers initialState = 0"
      "req_from helloRequest = ''15551234567''"
    by (simp_all add: initialState_def helloRequest_def)
  show ?thesis
    using sendmsg_not_connected[OF t c, of "SendReturns []" "''9f86d081884c7d65''"]
    by (simp add: i)
qed

section \<open>Session deletion\<close>

lemma cleanedClientId_idem: "cleanedClientId (cleanedClientId p) = cleanedClientId p"
  by (simp add: cleanedClientId_def)

lemma getSessionPath_cleaned: "getSessionPath (cleanedClientId p) = getSessionPath p"
  by (simp add: getSessionPath_def cleanedClientId_idem)

lemma getCachePath_cleaned: "getCachePath (cleanedClientId p) = getCachePath p"
  by (simp add: getCachePath_def cleanedClientId_idem)

lemma sessiondelete_absent:
  "clients s (cleanedClientId param) = None \<Longrightarrow> \<not> existsSync (getSessionPath param) s \<Longrightarrow>
   \<not> existsSync (getCachePath param) s \<Longrightarrow>
   delete_sessiondelete param s =
     (respond 200 [(''status'', JStr ''deleted''), (''phone'', JStr (cleanedClientId param)),
                   (''message'', JStr msgSessionDeleted)], s)"
  by (simp add: delete_sessiondelete_def getSessionPath_cleaned getCachePath_cleaned)

lemma existsSync_removeSync_same: "\<not> existsSync p (removeSync p s)"
  by (simp add: existsSync_def removeSync_def pathUnder_def)

lemma existsSync_removeSync_other: "\<not> existsSync p s \<Longrightarrow> \<not> existsSync p (removeSync q s)"
  by (simp add: existsSync_def removeSync_def)

lemma clearQrTimer_clients [simp]: "clients (clearQrTimer p s) = clients s"
  by (simp add: clearQrTimer_def clearTimeout_def split: option.splits)

lemma removeSync_clients [simp]: "clients (removeSync p s) = clients s"
  by (simp add: removeSync_def)

lemma clearQrTimer_store [simp]: "store (clearQrTimer p s) = store s"
  by (simp add: clearQrTimer_def clearTimeout_def split: option.splits)

lemma removeSync_store [simp]: "store (removeSync p s) = store s"
  by (simp add: removeSync_def)

lemma sessiondelete_post:
  "clients (snd (delete_sessiondelete param s)) (cleanedClientId param) = None \<and>
   \<not> existsSync (getSessionPath param) (snd (delete_sessiondelete param s)) \<and>
   \<not> existsSync (getCachePath param) (snd (delete_sessiondelete param s))"
proof -
  define s1 where "s1 = (case clients s (cleanedClientId param) of None \<Rightarrow> s
      | Some c \<Rightarrow> clearQrTimer (cleanedClientId param)
                   (clients_delete (cleanedClientId param) (destroy c s)))"
  define s2 where "s2 = (if existsSync (getSessionPath param) s1
      then removeSync (getSessionPath param) s1 else s1)"
  define s3 where "s3 = (if existsSync (getCachePath param) s2
      then removeSync (getCachePath param) s2 else s2)"
  have eq: "snd (delete_sessiondelete param s) = s3"
    by (simp add: delete_sessiondelete_def Let_def s3_def s2_def s1_def
        getSessionPath_cleaned getCachePath_cleaned)
  have c1: "clients s1 (cleanedClientId param) = None"
    by (cases "clients s (cleanedClientId param)") (simp_all add: s1_def clients_delete_def)
  have c3: "clients s3 (cleanedClientId param) = None"
    using c1 by (simp add: s3_def s2_def)
  have e2: "\<not> existsSync (getSessionPath param) s2"
    by (simp add: s2_def existsSync_removeSync_same)
  have e3: "\<not> existsSync (getSessionPath param) s3"
    using e2 by (simp add: s3_def existsSync_removeSync_other)
  have f3: "\<not> existsSync (getCachePath param) s3"
    by (simp add: s3_def existsSync_removeSync_same)
  show ?thesis
    using c3 e3 f3 by (simp add: eq)
qed

text \<open>
  C8. \<open>DELETE /sessiondelete/:phone\<close> for a phone that has neither a session nor a
  credential or cache directory answers 200 with status \<open>deleted\<close> and leaves the state as
  it was; and in every state a second delete gives the answer and the state of the first.
\<close>

theorem sessiondelete_idempotent:
  "(clients s (cleanedClientId param) = None \<and> \<not> existsSync (getSessionPath param) s \<and>
    \<not> existsSync (getCachePath param) s \<longrightarrow>
    delete_sessiondelete param s =
      (respond 200 [(''status'', JStr ''deleted''), (''phone'', JStr (cleanedClientId param)),
                    (''message'', JStr msgSessionDeleted)], s)) \<and>
   delete_sessiondelete param (snd (delete_sessiondelete param s)) = delete_sessiondelete param s"
proof -
  have fst_eq: "fst (delete_sessiondelete param t) =
      respond 200 [(''status'', JStr ''deleted''), (''phone'', JStr (cleanedClientId param)),
                   (''message'', JStr msgSessionDeleted)]" for t
    by (simp add: delete_sessiondelete_def Let_def)
  have "delete_sessiondelete param (snd (delete_sessiondelete param s)) =
      (fst (delete_sessiondelete param s), snd (delete_sessiondelete param s))"
    using sessiondelete_absent[of "snd (delete_sessiondelete param s)" param] sessiondelete_post[of param s]
    by (simp add: fst_eq)
  then show ?thesis
    using sessiondelete_absent[of s param] by simp
qed

lemma cache_not_base: "\<not> existsSync (getCachePath p) initialState"
  by (simp add: existsSync_def initialState_def getCachePath_def path_join_def AUTH_DIR_def CACHE_DIR_def)

theorem sessiondelete_idempotent_witness:
  "delete_sessiondelete ''+15551234567'' initialState =
     (respond 200 [(''status'', JStr ''deleted''), (''phone'', JStr ''15551234567''),
                   (''message'', JStr msgSessionDeleted)], initialState) \<and>
   snd (delete_sessiondelete ''15551234567'' (registered ''15551234567'' None)) =
     snd (delete_sessiondelete ''15551234567''
            (snd (delete_sessiondelete ''15551234567'' (registered ''15551234567'' None)))) \<and>
   clients (snd (delete_sessiondelete ''15551234567'' (registered ''15551234567'' None))) = Map.empty \<and>
   destroyed (store (snd (delete_sessiondelete ''15551234567'' (registered ''15551234567'' None))) 0)"
proof -
  have c: "cleanedClientId ''+15551234567'' = ''15551234567''"
      "cleanedClientId ''15551234567'' = ''15551234567''"
    by (simp_all add: cleanedClientId_def isIdChar_def)
  have n: "clients initialState (cleanedClientId ''+15551234567'') = None"
    by (simp add: initialState_def)
  have r: "clients (registered ''15551234567'' None) = [''15551234567'' \<mapsto> 0]"
    by (rule registered_clients[OF truthy_phone(1)])
  have d: "clients (snd (delete_sessiondelete ''15551234567'' (registered ''15551234567'' None))) = Map.empty \<and>
   destroyed (store (snd (delete_sessiondelete ''15551234567'' (registered ''15551234567'' None))) 0)"
    by (simp add: delete_sessiondelete_def Let_def c r clients_delete_def destroy_def)
  show ?thesis
    using sessiondelete_idempotent[of initialState "''+15551234567''"]
      sessiondelete_idempotent[of "registered ''15551234567'' None" "''15551234567''"]
      n initialState_fs[of "''+15551234567''"] cache_not_base[of "''+15551234567''"] d
    by (simp add: c)
qed

end
